theory Spec2Isabelle
  imports Complex_Main
begin

section \<open>The application controller of umbreld (modules/apps/app.ts)\<close>

text \<open>
  A shallow embedding of the class \<open>App\<close>. The controller is a record of its fields, the
  machine it acts on is a record \<open>world\<close>, and every asynchronous method is a function
  from the pair (controller, world) to an outcome and the new pair. An exception is the
  outcome \<open>Inl e\<close>; what the method changed before it threw stays changed, as in the
  source. Every write to \<open>this.state\<close> and every call of an external collaborator is
  appended to the history \<open>trace\<close> of the world, so that the order of the steps of a
  method can be stated.
\<close>

subsection \<open>Data\<close>

datatype AppState =
    Unknown | Installing | Starting | Running | Stopping | Stopped
  | Restarting | Uninstalling | Updating | Ready

text \<open>
  A service of the compose file: the two fields the controller reads (\<open>image\<close> is the
  field \<open>service_image\<close>), and the rest of the entry. The services are kept in the order
  \<open>Object.keys\<close> enumerates them; the names are the keys of an object. A descriptor
  may have no \<open>services\<close> at all (the type \<open>Compose\<close> makes them optional).
\<close>

record service =
  service_image :: "string option"
  container_name :: "string option"
  other_fields :: "(string \<times> string) list"

record compose =
  services :: "(string \<times> service) list option"
  other_sections :: "(string \<times> string) list"

text \<open>
  The fields of the controller; the field \<open>id\<close> of the source is \<open>appId\<close> here.
\<close>

record App =
  appId :: string
  dataDirectory :: string
  state :: AppState
  stateProgress :: nat

datatype event =
    SetState AppState
  | Log string
  | CreateChildLogger string
  | Script string string
  | ReadCompose
  | WriteCompose compose
  | DockerRmi "string list"
  | RemoveDir string
  | LockAcquire
  | StoreGet string
  | StoreSet string "string list"
  | LockRelease
  | DockerStats "string list"
  | SystemInformationMem

datatype error =
    InvalidAppId string
  | Failed event
  | TypeError
  | SyntaxError

text \<open>
  The machine: the file \<open>docker-compose.yml\<close> of the application as the descriptor that
  \<open>yaml.load\<close> reads from it (\<open>None\<close> when the file is missing or unreadable), whether
  the data directory exists, the lists of the store of umbreld by key, and the history.
\<close>

record world =
  compose_file :: "compose option"
  data_dir :: bool
  store :: "string \<Rightarrow> string list"
  trace :: "event list"

text \<open>
  A JavaScript number: a finite double is the rational it denotes. The two zeros of
  IEEE 754 are one value here (they are equal under \<open>===\<close>).
\<close>

datatype number = NaN | PosInfinity | NegInfinity | Finite rat

text \<open>
  A line of \<open>docker stats\<close> after \<open>JSON.parse\<close>: the two fields the controller reads,
  each as the string \<open>parseFloat\<close> receives (the field converted by \<open>ToString\<close>, so a
  missing field is \<open>undefined\<close>). These strings are lists of UTF-16 code units (integers), as the
  strings of JavaScript are: the white space that \<open>parseFloat\<close> drops goes beyond the
  characters of one byte. \<open>code_units\<close> gives the code units of a string of such
  characters.
\<close>

record usage =
  MemPerc :: "int list"
  CPUPerc :: "int list"

definition code_units :: "string \<Rightarrow> int list" where
  "code_units s = map of_char s"

text \<open>
  The external collaborators are parameters: which external calls fail, what a script of
  the script runner does to the compose file of the application (whether it fails or
  not; the scripts leave the store of umbreld alone) and what it prints, what
  \<open>docker stats\<close> prints, what \<open>JSON.parse\<close> makes of a line (\<open>None\<close> is a syntax error,
  \<open>Some None\<close> the value \<open>null\<close>), and the total memory \<open>systeminformation\<close> reports.
\<close>

record env =
  umbreld_dataDirectory :: string
  fails :: "event \<Rightarrow> bool"
  script_effect :: "string \<Rightarrow> string \<Rightarrow> compose option \<Rightarrow> compose option"
  script_stdout :: "string \<Rightarrow> string \<Rightarrow> string"
  stats_stdout :: "string list \<Rightarrow> string"
  JSON_parse :: "string \<Rightarrow> usage option option"
  total_memory :: number

subsection \<open>Asynchronous methods\<close>

type_synonym 'a action = "App \<times> world \<Rightarrow> (error + 'a) \<times> App \<times> world"

definition ret :: "'a \<Rightarrow> 'a action" where
  "ret x = (\<lambda>s. (Inr x, s))"

definition throw :: "error \<Rightarrow> 'a action" where
  "throw e = (\<lambda>s. (Inl e, s))"

definition await :: "'a action \<Rightarrow> ('a \<Rightarrow> 'b action) \<Rightarrow> 'b action" where
  "await m k = (\<lambda>s. case m s of (Inl e, s') \<Rightarrow> (Inl e, s') | (Inr x, s') \<Rightarrow> k x s')"

definition and_then :: "'a action \<Rightarrow> 'b action \<Rightarrow> 'b action" where
  "and_then m n = await m (\<lambda>_. n)"

definition try_catch :: "'a action \<Rightarrow> unit action" where
  "try_catch m = (\<lambda>s. case m s of (_, s') \<Rightarrow> (Inr (), s'))"

definition this :: "App action" where
  "this = (\<lambda>(a, w). (Inr a, a, w))"

definition set_state :: "AppState \<Rightarrow> unit action" where
  "set_state st = (\<lambda>(a, w). (Inr (), a\<lparr>state := st\<rparr>, w\<lparr>trace := trace w @ [SetState st]\<rparr>))"

definition logger_log :: "string \<Rightarrow> unit action" where
  "logger_log msg = (\<lambda>(a, w). (Inr (), a, w\<lparr>trace := trace w @ [Log msg]\<rparr>))"

definition external :: "env \<Rightarrow> event \<Rightarrow> unit action" where
  "external E e = (\<lambda>(a, w).
     (if fails E e then Inl (Failed e) else Inr (), a, w\<lparr>trace := trace w @ [e]\<rparr>))"

definition appScript :: "env \<Rightarrow> string \<Rightarrow> string \<Rightarrow> string action" where
  "appScript E act i = (\<lambda>(a, w).
     (if fails E (Script act i) then Inl (Failed (Script act i))
      else Inr (script_stdout E act i),
      a,
      w\<lparr>compose_file := script_effect E act i (compose_file w),
        trace := trace w @ [Script act i]\<rparr>))"

definition readCompose :: "compose action" where
  "readCompose = (\<lambda>(a, w).
     (case compose_file w of None \<Rightarrow> Inl (Failed ReadCompose) | Some c \<Rightarrow> Inr c,
      a, w\<lparr>trace := trace w @ [ReadCompose]\<rparr>))"

definition writeCompose :: "env \<Rightarrow> compose \<Rightarrow> unit action" where
  "writeCompose E c = (\<lambda>(a, w).
     if fails E (WriteCompose c)
     then (Inl (Failed (WriteCompose c)), a, w\<lparr>trace := trace w @ [WriteCompose c]\<rparr>)
     else (Inr (), a, w\<lparr>compose_file := Some c, trace := trace w @ [WriteCompose c]\<rparr>))"

subsection \<open>The container name patcher\<close>

text \<open>The test \<open>!x\<close> of the source on an optional string: absent or empty.\<close>

definition truthy :: "string option \<Rightarrow> bool" where
  "truthy v = (case v of None \<Rightarrow> False | Some s \<Rightarrow> s \<noteq> [])"

definition patch_service :: "string \<Rightarrow> string \<Rightarrow> service \<Rightarrow> service" where
  "patch_service i serviceName s =
     (if \<not> truthy (container_name s)
      then s\<lparr>container_name := Some (i @ ''_'' @ serviceName @ ''_1'')\<rparr>
      else s)"

definition patch_services :: "string \<Rightarrow> (string \<times> service) list \<Rightarrow> (string \<times> service) list" where
  "patch_services i svcs = map (\<lambda>(serviceName, s). (serviceName, patch_service i serviceName s)) svcs"

definition patch_compose :: "string \<Rightarrow> compose \<Rightarrow> error + compose" where
  "patch_compose i c =
     (case services c of
        None \<Rightarrow> Inl TypeError
      | Some svcs \<Rightarrow> Inr (c\<lparr>services := Some (patch_services i svcs)\<rparr>))"

definition patchComposeServices :: "env \<Rightarrow> unit action" where
  "patchComposeServices E =
     await readCompose (\<lambda>c.
     await this (\<lambda>self.
       case patch_compose (appId self) c of
         Inl e \<Rightarrow> throw e
       | Inr c' \<Rightarrow> writeCompose E c'))"

subsection \<open>Lifecycle operations\<close>

definition install :: "env \<Rightarrow> bool action" where
  "install E =
     and_then (set_state Installing) (
     and_then (patchComposeServices E) (
     await this (\<lambda>self.
     and_then (appScript E ''install'' (appId self)) (
     and_then (set_state Ready) (
     ret True)))))"

definition old_images :: "(string \<times> service) list \<Rightarrow> string list" where
  "old_images svcs = map the (filter truthy (map (\<lambda>(serviceName, s). service_image s) svcs))"

definition update :: "env \<Rightarrow> bool action" where
  "update E =
     and_then (set_state Updating) (
     await this (\<lambda>self.
     and_then (logger_log (''Updating app '' @ appId self)) (
     await readCompose (\<lambda>c.
       case services c of
         None \<Rightarrow> throw TypeError
       | Some svcs \<Rightarrow>
           and_then (appScript E ''pre-patch-update'' (appId self)) (
           and_then (patchComposeServices E) (
           and_then (appScript E ''post-patch-update'' (appId self)) (
           and_then (try_catch (external E (DockerRmi (old_images svcs)))) (
           and_then (set_state Ready) (
           ret True)))))))))"

definition start :: "env \<Rightarrow> bool action" where
  "start E =
     await this (\<lambda>self.
     and_then (logger_log (''Starting app '' @ appId self)) (
     and_then (set_state Starting) (
     and_then (appScript E ''start'' (appId self)) (
     and_then (set_state Ready) (
     ret True)))))"

definition stop :: "env \<Rightarrow> bool action" where
  "stop E =
     and_then (set_state Stopping) (
     await this (\<lambda>self.
     and_then (appScript E ''stop'' (appId self)) (
     and_then (set_state Stopped) (
     ret True))))"

definition restart :: "env \<Rightarrow> bool action" where
  "restart E =
     and_then (set_state Restarting) (
     await this (\<lambda>self.
     and_then (appScript E ''stop'' (appId self)) (
     and_then (appScript E ''start'' (appId self)) (
     and_then (set_state Ready) (
     ret True)))))"

text \<open>
  \<open>fse.remove\<close> of the data directory: the compose file lives in it.
\<close>

definition fse_remove :: "env \<Rightarrow> string \<Rightarrow> unit action" where
  "fse_remove E path = (\<lambda>(a, w).
     if fails E (RemoveDir path)
     then (Inl (Failed (RemoveDir path)), a, w\<lparr>trace := trace w @ [RemoveDir path]\<rparr>)
     else (Inr (), a,
           w\<lparr>compose_file := None, data_dir := False, trace := trace w @ [RemoveDir path]\<rparr>))"

text \<open>
  Modelled from the spec: the store of umbreld and its write lock are not in this file
  of the repository. \<open>getWriteLock fn\<close> takes the exclusive lock, runs \<open>fn\<close> with the
  accessors \<open>get\<close> and \<open>set\<close> and gives the lock back when \<open>fn\<close> has ended; \<open>get key\<close>
  returns the list stored under the key, \<open>set key v\<close> replaces it.
\<close>

definition store_get :: "env \<Rightarrow> string \<Rightarrow> string list action" where
  "store_get E key = (\<lambda>(a, w).
     (if fails E (StoreGet key) then Inl (Failed (StoreGet key)) else Inr (store w key),
      a, w\<lparr>trace := trace w @ [StoreGet key]\<rparr>))"

definition store_set :: "env \<Rightarrow> string \<Rightarrow> string list \<Rightarrow> unit action" where
  "store_set E key v = (\<lambda>(a, w).
     if fails E (StoreSet key v)
     then (Inl (Failed (StoreSet key v)), a, w\<lparr>trace := trace w @ [StoreSet key v]\<rparr>)
     else (Inr (), a, w\<lparr>store := (store w)(key := v), trace := trace w @ [StoreSet key v]\<rparr>))"

definition getWriteLock ::
  "env \<Rightarrow> ((string \<Rightarrow> string list action) \<Rightarrow> (string \<Rightarrow> string list \<Rightarrow> unit action) \<Rightarrow> 'a action)
     \<Rightarrow> 'a action" where
  "getWriteLock E fn =
     and_then (external E LockAcquire) (\<lambda>s.
       case fn (store_get E) (store_set E) s of
         (r, a, w) \<Rightarrow> (r, a, w\<lparr>trace := trace w @ [LockRelease]\<rparr>))"

definition uninstall :: "env \<Rightarrow> bool action" where
  "uninstall E =
     and_then (set_state Uninstalling) (
     await this (\<lambda>self.
     and_then (appScript E ''stop'' (appId self)) (
     and_then (fse_remove E (dataDirectory self)) (
     and_then (getWriteLock E (\<lambda>get set.
       await (get ''apps'') (\<lambda>apps.
       set ''apps'' (filter (\<lambda>i. i \<noteq> appId self) apps)))) (
     ret True)))))"

subsection \<open>Construction\<close>

text \<open>
  The test \<open>/^[a-zA-Z0-9-_]+$/.test(appId)\<close>: one character or more, each of them an
  ASCII letter, a digit, a hyphen or an underscore. Without the flag \<open>m\<close> the anchors
  match at the two ends of the input only.
\<close>

definition id_char :: "char \<Rightarrow> bool" where
  "id_char ch =
     ((97 \<le> (of_char ch :: nat) \<and> (of_char ch :: nat) \<le> 122)
      \<or> (65 \<le> (of_char ch :: nat) \<and> (of_char ch :: nat) \<le> 90)
      \<or> (48 \<le> (of_char ch :: nat) \<and> (of_char ch :: nat) \<le> 57)
      \<or> ch = CHR ''-'' \<or> ch = CHR ''_'')"

definition appId_test :: "string \<Rightarrow> bool" where
  "appId_test i = (i \<noteq> [] \<and> list_all id_char i)"

definition App_constructor :: "env \<Rightarrow> string \<Rightarrow> world \<Rightarrow> (error + App) \<times> world" where
  "App_constructor E i w =
     (if \<not> appId_test i then (Inl (InvalidAppId i), w)
      else (Inr \<lparr>appId = i,
                 dataDirectory = umbreld_dataDirectory E @ ''/app-data/'' @ i,
                 state = Unknown,
                 stateProgress = 0\<rparr>,
            w\<lparr>trace := trace w @ [CreateChildLogger ''app'']\<rparr>))"

subsection \<open>Numbers\<close>

text \<open>
  Rounding of a rational to the nearest double, ties to even: the value is scaled to a
  significand \<open>m\<close> of 53 bits (fewer below \<open>2^-1022\<close>), rounded to an integer and scaled
  back; a result \<open>m * 2^e\<close> of \<open>2^1024\<close> or more, that is one of more than \<open>1024 - e\<close>
  bits, is an infinity.
\<close>

function bit_length :: "int \<Rightarrow> nat" where
  "bit_length n = (if n \<le> 0 then 0 else Suc (bit_length (n div 2)))"
  by pat_completeness auto
termination
  by (relation "measure nat") auto

declare bit_length.simps [simp del]

definition floor_log2 :: "rat \<Rightarrow> int" where
  "floor_log2 x =
     (if 1 \<le> x then int (bit_length \<lfloor>x\<rfloor>) - 1
      else - int (bit_length (\<lceil>1 / x\<rceil> - 1)))"

definition pow_int :: "rat \<Rightarrow> int \<Rightarrow> rat" where
  "pow_int b e = (if 0 \<le> e then b ^ nat e else 1 / b ^ nat (- e))"

definition round_half_even :: "rat \<Rightarrow> int" where
  "round_half_even q =
     (if q - of_int \<lfloor>q\<rfloor> < 1 / 2 then \<lfloor>q\<rfloor>
      else if 1 / 2 < q - of_int \<lfloor>q\<rfloor> then \<lfloor>q\<rfloor> + 1
      else if even \<lfloor>q\<rfloor> then \<lfloor>q\<rfloor> else \<lfloor>q\<rfloor> + 1)"

definition binary64 :: "rat \<Rightarrow> number" where
  "binary64 x =
     (if x = 0 then Finite 0
      else
        let e = max (floor_log2 \<bar>x\<bar>) (- 1022) - 52;
            m = round_half_even (\<bar>x\<bar> / pow_int 2 e)
        in if 1024 < int (bit_length m) + e then (if 0 < x then PosInfinity else NegInfinity)
           else Finite ((if 0 < x then 1 else - 1) * of_int m * pow_int 2 e))"

definition sign_of :: "number \<Rightarrow> int" where
  "sign_of x =
     (case x of NaN \<Rightarrow> 0 | PosInfinity \<Rightarrow> 1 | NegInfinity \<Rightarrow> - 1
      | Finite a \<Rightarrow> (if 0 < a then 1 else if a < 0 then - 1 else 0))"

definition infinity_of :: "int \<Rightarrow> number" where
  "infinity_of s = (if s = 0 then NaN else if 0 < s then PosInfinity else NegInfinity)"

definition js_add :: "number \<Rightarrow> number \<Rightarrow> number" where
  "js_add x y =
     (case (x, y) of
        (NaN, _) \<Rightarrow> NaN
      | (_, NaN) \<Rightarrow> NaN
      | (Finite a, Finite b) \<Rightarrow> binary64 (a + b)
      | (PosInfinity, NegInfinity) \<Rightarrow> NaN
      | (NegInfinity, PosInfinity) \<Rightarrow> NaN
      | (Finite a, _) \<Rightarrow> y
      | (_, _) \<Rightarrow> x)"

definition js_mul :: "number \<Rightarrow> number \<Rightarrow> number" where
  "js_mul x y =
     (case (x, y) of
        (NaN, _) \<Rightarrow> NaN
      | (_, NaN) \<Rightarrow> NaN
      | (Finite a, Finite b) \<Rightarrow> binary64 (a * b)
      | (_, _) \<Rightarrow> infinity_of (sign_of x * sign_of y))"

text \<open>
  Division; a zero divisor is taken as \<open>+0\<close>. The source divides by the literal \<open>100\<close> only.
\<close>

definition js_div :: "number \<Rightarrow> number \<Rightarrow> number" where
  "js_div x y =
     (case (x, y) of
        (NaN, _) \<Rightarrow> NaN
      | (_, NaN) \<Rightarrow> NaN
      | (Finite a, Finite b) \<Rightarrow> (if b = 0 then infinity_of (sign_of x) else binary64 (a / b))
      | (Finite a, _) \<Rightarrow> Finite 0
      | (_, Finite b) \<Rightarrow> infinity_of (sign_of x * (if b < 0 then - 1 else 1))
      | (_, _) \<Rightarrow> NaN)"

text \<open>
  \<open>Number.parseFloat\<close>: leading white space is dropped, then the longest prefix that is a
  decimal literal is read: a sign, then \<open>Infinity\<close> or digits with a fraction and an
  exponent. With no such prefix the result is \<open>NaN\<close>. The white space is that of
  ECMAScript: the characters TAB, VT, FF and ZWNBSP (U+FEFF), the space separators of
  Unicode (U+0020, U+00A0, U+1680, U+2000 to U+200A, U+202F, U+205F, U+3000) and the line
  terminators LF, CR, U+2028 and U+2029.
\<close>

definition is_space :: "int \<Rightarrow> bool" where
  "is_space u =
     (u \<in> {0x09, 0x0A, 0x0B, 0x0C, 0x0D, 0x20, 0xA0, 0x1680, 0x2028, 0x2029, 0x202F, 0x205F,
            0x3000, 0xFEFF}
      \<or> (0x2000 \<le> u \<and> u \<le> 0x200A))"

definition is_digit :: "int \<Rightarrow> bool" where
  "is_digit u = (48 \<le> u \<and> u \<le> 57)"

definition digits_value :: "int list \<Rightarrow> int" where
  "digits_value ds = foldl (\<lambda>n u. 10 * n + (u - 48)) 0 ds"

definition exponent_part :: "int list \<Rightarrow> int" where
  "exponent_part s =
     (case s of
        [] \<Rightarrow> 0
      | ch # r \<Rightarrow>
          if ch = of_char CHR ''e'' \<or> ch = of_char CHR ''E'' then
            (case r of
               [] \<Rightarrow> 0
             | sg # r' \<Rightarrow>
                 if sg = of_char CHR ''+'' then digits_value (takeWhile is_digit r')
                 else if sg = of_char CHR ''-'' then - digits_value (takeWhile is_digit r')
                 else digits_value (takeWhile is_digit r))
          else 0)"

definition parseFloat :: "int list \<Rightarrow> number" where
  "parseFloat s =
     (let t = dropWhile is_space s;
          neg = (t \<noteq> [] \<and> hd t = of_char CHR ''-'');
          u = (if t \<noteq> [] \<and> (hd t = of_char CHR ''-'' \<or> hd t = of_char CHR ''+'')
               then tl t else t)
      in if take 8 u = code_units ''Infinity'' then (if neg then NegInfinity else PosInfinity)
         else
           let ip = takeWhile is_digit u;
               r1 = dropWhile is_digit u;
               dot = (r1 \<noteq> [] \<and> hd r1 = of_char CHR ''.'');
               fp = (if dot then takeWhile is_digit (tl r1) else []);
               r2 = (if dot then dropWhile is_digit (tl r1) else r1)
           in if ip = [] \<and> fp = [] then NaN
              else binary64 ((if neg then - 1 else 1)
                             * of_int (digits_value (ip @ fp)) / 10 ^ length fp
                             * pow_int 10 (exponent_part r2)))"

subsection \<open>Resource usage\<close>

text \<open>\<open>stdout.split('\n')\<close>: the pieces between the line feeds, one piece at least.\<close>

fun split_lines :: "string \<Rightarrow> string list" where
  "split_lines [] = [[]]"
| "split_lines (ch # s) =
     (if ch = CHR 0x0A then [] # split_lines s
      else (case split_lines s of [] \<Rightarrow> [[ch]] | l # ls \<Rightarrow> (ch # l) # ls))"

fun parse_lines :: "env \<Rightarrow> string list \<Rightarrow> error + usage option list" where
  "parse_lines E [] = Inr []"
| "parse_lines E (l # ls) =
     (case JSON_parse E l of
        None \<Rightarrow> Inl SyntaxError
      | Some v \<Rightarrow> (case parse_lines E ls of Inl e \<Rightarrow> Inl e | Inr vs \<Rightarrow> Inr (v # vs)))"

text \<open>
  The command template of execa, \<open>$`docker stats ... ${containers}`\<close>: every element of
  the array must be a string; an element that is \<open>undefined\<close> (a service with no
  \<open>container_name\<close>) is refused with a \<open>TypeError\<close> when the template is read, before any
  process is started.
\<close>

definition template_args :: "string option list \<Rightarrow> error + string list" where
  "template_args xs = (if None \<in> set xs then Inl TypeError else Inr (map the xs))"

definition docker_stats :: "env \<Rightarrow> string option list \<Rightarrow> string action" where
  "docker_stats E containers =
     (case template_args containers of
        Inl e \<Rightarrow> throw e
      | Inr args \<Rightarrow> (\<lambda>(a, w).
          (if fails E (DockerStats args) then Inl (Failed (DockerStats args))
           else Inr (stats_stdout E args),
           a, w\<lparr>trace := trace w @ [DockerStats args]\<rparr>)))"

definition getResourceUsage :: "env \<Rightarrow> usage option list action" where
  "getResourceUsage E =
     await readCompose (\<lambda>c.
       case services c of
         None \<Rightarrow> throw TypeError
       | Some svcs \<Rightarrow>
           await (docker_stats E (map (\<lambda>(serviceName, s). container_name s) svcs)) (\<lambda>out.
             case parse_lines E (split_lines out) of
               Inl e \<Rightarrow> throw e
             | Inr data \<Rightarrow> ret data))"

text \<open>
  The loop \<open>for (const container of containers) total += Number.parseFloat(container.F)\<close>;
  reading a field of \<open>null\<close> throws.
\<close>

fun sum_percentages :: "(usage \<Rightarrow> int list) \<Rightarrow> number \<Rightarrow> usage option list \<Rightarrow> error + number" where
  "sum_percentages F acc [] = Inr acc"
| "sum_percentages F acc (None # cs) = Inl TypeError"
| "sum_percentages F acc (Some c # cs) = sum_percentages F (js_add acc (parseFloat (F c))) cs"

definition systemInformation_mem :: "env \<Rightarrow> number action" where
  "systemInformation_mem E = (\<lambda>(a, w).
     (if fails E SystemInformationMem then Inl (Failed SystemInformationMem)
      else Inr (total_memory E),
      a, w\<lparr>trace := trace w @ [SystemInformationMem]\<rparr>))"

definition getMemoryUsage :: "env \<Rightarrow> number action" where
  "getMemoryUsage E =
     await (getResourceUsage E) (\<lambda>containers.
       case sum_percentages MemPerc (Finite 0) containers of
         Inl e \<Rightarrow> throw e
       | Inr totalMemoryPercentage \<Rightarrow>
           await (systemInformation_mem E) (\<lambda>mem_total.
             ret (js_mul mem_total (js_div totalMemoryPercentage (Finite 100)))))"


subsection \<open>An example configuration\<close>

text \<open>
  An application with three services, one of them with a pinned container name and one
  with an empty name and no image, on a machine where every external call succeeds.
\<close>

definition example_app :: App where
  "example_app = \<lparr>appId = ''bitcoin'', dataDirectory = ''/data/app-data/bitcoin'',
                   state = Unknown, stateProgress = 0\<rparr>"

definition web_service :: service where
  "web_service = \<lparr>service_image = Some ''nginx:1.0'', container_name = None, other_fields = []\<rparr>"

definition db_service :: service where
  "db_service = \<lparr>service_image = Some ''postgres:13'', container_name = Some ''db'',
                  other_fields = [(''restart'', ''always'')]\<rparr>"

definition builder_service :: service where
  "builder_service = \<lparr>service_image = None, container_name = Some '''',
                       other_fields = [(''build'', ''.'')]\<rparr>"

definition example_compose :: compose where
  "example_compose = \<lparr>services = Some [(''web'', web_service), (''db'', db_service),
                                         (''builder'', builder_service)],
                       other_sections = [(''version'', ''3.7'')]\<rparr>"

definition example_world :: world where
  "example_world = \<lparr>compose_file = Some example_compose, data_dir = True,
     store = (\<lambda>key. if key = ''apps'' then [''bitcoin'', ''lightning'', ''bitcoin'', ''mempool''] else []),
     trace = []\<rparr>"

definition example_env :: env where
  "example_env = \<lparr>umbreld_dataDirectory = ''/data'',
     fails = (\<lambda>e. False),
     script_effect = (\<lambda>act i c. c),
     script_stdout = (\<lambda>act i. []),
     stats_stdout = (\<lambda>containers. []),
     JSON_parse = (\<lambda>l. None),
     total_memory = Finite 16000000000\<rparr>"

text \<open>The compose file after \<open>patchComposeServices\<close> of the application \<open>bitcoin\<close>.\<close>

definition patched_example :: compose where
  "patched_example = example_compose\<lparr>services := Some
       [(''web'', web_service\<lparr>container_name := Some ''bitcoin_web_1''\<rparr>),
        (''db'', db_service),
        (''builder'', builder_service\<lparr>container_name := Some ''bitcoin_builder_1''\<rparr>)]\<rparr>"

definition patched_world :: world where
  "patched_world = example_world\<lparr>compose_file := Some patched_example,
                                  trace := [ReadCompose, WriteCompose patched_example]\<rparr>"

text \<open>
  An update whose script \<open>pre-patch-update\<close> installs a compose file with new images, on
  a machine where \<open>docker rmi\<close> fails.
\<close>

definition new_compose :: compose where
  "new_compose = \<lparr>services = Some [(''web'', web_service\<lparr>service_image := Some ''nginx:2.0''\<rparr>),
                                     (''db'', db_service\<lparr>service_image := Some ''postgres:14''\<rparr>)],
                   other_sections = [(''version'', ''3.7'')]\<rparr>"

definition updating_env :: env where
  "updating_env = example_env\<lparr>
     fails := (\<lambda>e. case e of DockerRmi imgs \<Rightarrow> True | _ \<Rightarrow> False),
     script_effect := (\<lambda>act i c. if act = ''pre-patch-update'' then Some new_compose else c)\<rparr>"

text \<open>
  The application running: the compose file has the services \<open>web\<close> and \<open>db\<close>, both with
  a container name, and \<open>docker stats\<close> prints one JSON line for each sample (memory
  percentage, CPU percentage), which \<open>JSON.parse\<close> reads back.
\<close>

definition running_compose :: compose where
  "running_compose = \<lparr>services = Some
       [(''web'', web_service\<lparr>container_name := Some ''bitcoin_web_1''\<rparr>),
        (''db'', db_service)],
     other_sections = [(''version'', ''3.7'')]\<rparr>"

definition running_world :: world where
  "running_world = example_world\<lparr>compose_file := Some running_compose\<rparr>"

definition quoted :: "string \<Rightarrow> string" where
  "quoted s = CHR 0x22 # s @ [CHR 0x22]"

definition stats_line :: "string \<times> string \<Rightarrow> string" where
  "stats_line = (\<lambda>(mem, cpu).
     ''{'' @ quoted ''CPUPerc'' @ '':'' @ quoted cpu @ '','' @ quoted ''MemPerc'' @ '':'' @ quoted mem @ ''}'')"

fun join_lines :: "string list \<Rightarrow> string" where
  "join_lines [] = []"
| "join_lines [l] = l"
| "join_lines (l # ls) = l @ CHR 0x0A # join_lines ls"

definition sample :: "string \<times> string \<Rightarrow> usage" where
  "sample = (\<lambda>(mem, cpu). \<lparr>MemPerc = code_units mem, CPUPerc = code_units cpu\<rparr>)"

definition stats_env :: "(string \<times> string) list \<Rightarrow> env" where
  "stats_env samples = example_env\<lparr>
     stats_stdout := (\<lambda>containers. join_lines (map stats_line samples)),
     JSON_parse := map_of (map (\<lambda>s. (stats_line s, Some (sample s))) samples)\<rparr>"

definition stats_world :: world where
  "stats_world = running_world\<lparr>trace := [ReadCompose, DockerStats [''bitcoin_web_1'', ''db'']]\<rparr>"

section \<open>Properties\<close>

lemmas action_defs = ret_def throw_def await_def and_then_def try_catch_def this_def
  set_state_def logger_log_def external_def appScript_def readCompose_def writeCompose_def

lemmas example_defs = example_app_def example_world_def example_env_def example_compose_def
  web_service_def db_service_def builder_service_def

lemmas stats_defs = getResourceUsage_def docker_stats_def template_args_def stats_env_def
  stats_line_def quoted_def stats_world_def running_world_def running_compose_def

subsection \<open>Restart\<close>

text \<open>
  C1. Every run of \<open>restart\<close> first writes the state \<open>restarting\<close>, then calls the script
  action \<open>stop\<close>, and calls the action \<open>start\<close> only when \<open>stop\<close> has returned without
  error. When \<open>stop\<close> fails its error is the outcome, the state stays \<open>restarting\<close> and
  \<open>start\<close> is not in the history; when both succeed the state is \<open>ready\<close> and the result
  is \<open>true\<close>.
\<close>

theorem restart_stop_then_start:
  "restart E (a, w) =
     (if fails E (Script ''stop'' (appId a)) then
        (Inl (Failed (Script ''stop'' (appId a))),
         a\<lparr>state := Restarting\<rparr>,
         w\<lparr>compose_file := script_effect E ''stop'' (appId a) (compose_file w),
           trace := trace w @ [SetState Restarting, Script ''stop'' (appId a)]\<rparr>)
      else if fails E (Script ''start'' (appId a)) then
        (Inl (Failed (Script ''start'' (appId a))),
         a\<lparr>state := Restarting\<rparr>,
         w\<lparr>compose_file := script_effect E ''start'' (appId a)
                              (script_effect E ''stop'' (appId a) (compose_file w)),
           trace := trace w @ [SetState Restarting, Script ''stop'' (appId a),
                               Script ''start'' (appId a)]\<rparr>)
      else
        (Inr True,
         a\<lparr>state := Ready\<rparr>,
         w\<lparr>compose_file := script_effect E ''start'' (appId a)
                              (script_effect E ''stop'' (appId a) (compose_file w)),
           trace := trace w @ [SetState Restarting, Script ''stop'' (appId a),
                               Script ''start'' (appId a), SetState Ready]\<rparr>))"
  by (simp add: restart_def action_defs)

theorem restart_stop_then_start_witness:
  "fst (restart (example_env\<lparr>fails := (\<lambda>e. e = Script ''stop'' ''bitcoin'')\<rparr>)
          (example_app, example_world)) = Inl (Failed (Script ''stop'' ''bitcoin''))
   \<and> trace (snd (snd (restart (example_env\<lparr>fails := (\<lambda>e. e = Script ''stop'' ''bitcoin'')\<rparr>)
          (example_app, example_world)))) = [SetState Restarting, Script ''stop'' ''bitcoin'']
   \<and> state (fst (snd (restart (example_env\<lparr>fails := (\<lambda>e. e = Script ''stop'' ''bitcoin'')\<rparr>)
          (example_app, example_world)))) = Restarting
   \<and> fst (restart example_env (example_app, example_world)) = Inr True
   \<and> trace (snd (snd (restart example_env (example_app, example_world))))
       = [SetState Restarting, Script ''stop'' ''bitcoin'', Script ''start'' ''bitcoin'', SetState Ready]
   \<and> state (fst (snd (restart example_env (example_app, example_world)))) = Ready"
  using restart_stop_then_start [of "example_env\<lparr>fails := (\<lambda>e. e = Script ''stop'' ''bitcoin'')\<rparr>"
          example_app example_world]
        restart_stop_then_start [of example_env example_app example_world]
  by (simp add: example_defs)

subsection \<open>Install\<close>

text \<open>
  C2. When the compose file has been patched and written and the script action \<open>install\<close>
  fails, \<open>install\<close> ends with the error of the script, nothing runs after the script (it
  is the last entry of the history) and the state is \<open>installing\<close>: it is neither put back
  to \<open>unknown\<close> nor advanced to \<open>ready\<close>.
\<close>

theorem install_script_failure_leaves_installing:
  assumes "compose_file w = Some c"
    and "patch_compose (appId a) c = Inr c'"
    and "\<not> fails E (WriteCompose c')"
    and "fails E (Script ''install'' (appId a))"
  shows "install E (a, w) =
     (Inl (Failed (Script ''install'' (appId a))),
      a\<lparr>state := Installing\<rparr>,
      w\<lparr>compose_file := script_effect E ''install'' (appId a) (Some c'),
        trace := trace w @ [SetState Installing, ReadCompose, WriteCompose c',
                            Script ''install'' (appId a)]\<rparr>)"
  using assms by (simp add: install_def patchComposeServices_def action_defs)

theorem install_script_failure_leaves_installing_witness:
  "fails (example_env\<lparr>fails := (\<lambda>e. e = Script ''install'' ''bitcoin'')\<rparr>)
         (Script ''install'' (appId example_app))
   \<and> fst (install (example_env\<lparr>fails := (\<lambda>e. e = Script ''install'' ''bitcoin'')\<rparr>)
          (example_app, example_world)) = Inl (Failed (Script ''install'' ''bitcoin''))
   \<and> state (fst (snd (install (example_env\<lparr>fails := (\<lambda>e. e = Script ''install'' ''bitcoin'')\<rparr>)
          (example_app, example_world)))) = Installing
   \<and> last (trace (snd (snd (install (example_env\<lparr>fails := (\<lambda>e. e = Script ''install'' ''bitcoin'')\<rparr>)
          (example_app, example_world))))) = Script ''install'' ''bitcoin''"
proof -
  let ?E = "example_env\<lparr>fails := (\<lambda>e. e = Script ''install'' ''bitcoin'')\<rparr>"
  let ?c' = "example_compose\<lparr>services := Some (patch_services ''bitcoin''
               [(''web'', web_service), (''db'', db_service), (''builder'', builder_service)])\<rparr>"
  have 1: "compose_file example_world = Some example_compose"
    by (simp add: example_world_def)
  have 2: "patch_compose (appId example_app) example_compose = Inr ?c'"
    by (simp add: patch_compose_def example_app_def example_compose_def)
  have 3: "\<not> fails ?E (WriteCompose ?c')"
    by (simp add: example_env_def)
  have 4: "fails ?E (Script ''install'' (appId example_app))"
    by (simp add: example_env_def example_app_def)
  show ?thesis
    using install_script_failure_leaves_installing [OF 1 2 3 4] 4
    by (simp add: example_app_def)
qed

text \<open>Whatever step of \<open>install\<close> fails, the controller is left in the state \<open>installing\<close>.\<close>

lemma install_failure_state:
  "install E (a, w) = (Inl e, a', w') \<Longrightarrow> a' = a\<lparr>state := Installing\<rparr>"
  by (auto simp add: install_def patchComposeServices_def action_defs split: if_splits option.splits sum.splits)

subsection \<open>Update\<close>

text \<open>The old images are the image fields that are present and not the empty string.\<close>

lemma old_images_eq:
  "old_images svcs =
     concat (map (\<lambda>(serviceName, s).
       case service_image s of None \<Rightarrow> [] | Some img \<Rightarrow> if img = [] then [] else [img]) svcs)"
  by (induction svcs) (auto simp add: old_images_def truthy_def split: option.splits)

text \<open>
  C3. The old images are taken from the compose file as it is read at the start of
  \<open>update\<close>, before the script \<open>pre-patch-update\<close> runs (which may replace the file): they
  are the image fields of the services, those without an image left out (a missing field
  and the empty string are both left out by \<open>filter(Boolean)\<close>). When the three steps
  pre-patch, patch and post-patch succeed, \<open>docker rmi\<close> is called with exactly these
  images after the script \<open>post-patch-update\<close>, and whether that call fails or not,
  \<open>update\<close> writes the state \<open>ready\<close> and returns \<open>true\<close>. Nothing is assumed on the
  outcome of \<open>docker rmi\<close>.
\<close>

theorem update_removes_old_images:
  assumes "compose_file w = Some c"
    and "services c = Some svcs"
    and "\<not> fails E (Script ''pre-patch-update'' (appId a))"
    and "script_effect E ''pre-patch-update'' (appId a) (Some c) = Some c1"
    and "patch_compose (appId a) c1 = Inr c2"
    and "\<not> fails E (WriteCompose c2)"
    and "\<not> fails E (Script ''post-patch-update'' (appId a))"
  shows "update E (a, w) =
     (Inr True,
      a\<lparr>state := Ready\<rparr>,
      w\<lparr>compose_file := script_effect E ''post-patch-update'' (appId a) (Some c2),
        trace := trace w @
          [SetState Updating, Log (''Updating app '' @ appId a), ReadCompose,
           Script ''pre-patch-update'' (appId a), ReadCompose, WriteCompose c2,
           Script ''post-patch-update'' (appId a),
           DockerRmi (old_images svcs), SetState Ready]\<rparr>)
     \<and> old_images svcs =
         concat (map (\<lambda>(serviceName, s).
           case service_image s of None \<Rightarrow> [] | Some img \<Rightarrow> if img = [] then [] else [img]) svcs)"
  using assms
  by (simp add: update_def patchComposeServices_def action_defs old_images_eq [symmetric])

theorem update_removes_old_images_witness:
  "fails updating_env (DockerRmi [''nginx:1.0'', ''postgres:13''])
   \<and> fst (update updating_env (example_app, example_world)) = Inr True
   \<and> state (fst (snd (update updating_env (example_app, example_world)))) = Ready
   \<and> trace (snd (snd (update updating_env (example_app, example_world)))) =
       [SetState Updating, Log ''Updating app bitcoin'', ReadCompose,
        Script ''pre-patch-update'' ''bitcoin'', ReadCompose,
        WriteCompose (new_compose\<lparr>services := Some
          [(''web'', web_service\<lparr>service_image := Some ''nginx:2.0'', container_name := Some ''bitcoin_web_1''\<rparr>),
           (''db'', db_service\<lparr>service_image := Some ''postgres:14''\<rparr>)]\<rparr>),
        Script ''post-patch-update'' ''bitcoin'',
        DockerRmi [''nginx:1.0'', ''postgres:13''], SetState Ready]"
proof -
  let ?c2 = "new_compose\<lparr>services := Some
          [(''web'', web_service\<lparr>service_image := Some ''nginx:2.0'', container_name := Some ''bitcoin_web_1''\<rparr>),
           (''db'', db_service\<lparr>service_image := Some ''postgres:14''\<rparr>)]\<rparr>"
  have 1: "compose_file example_world = Some example_compose"
    by (simp add: example_world_def)
  have 2: "services example_compose =
            Some [(''web'', web_service), (''db'', db_service), (''builder'', builder_service)]"
    by (simp add: example_compose_def)
  have 3: "\<not> fails updating_env (Script ''pre-patch-update'' (appId example_app))"
    by (simp add: updating_env_def)
  have 4: "script_effect updating_env ''pre-patch-update'' (appId example_app)
             (Some example_compose) = Some new_compose"
    by (simp add: updating_env_def)
  have 5: "patch_compose (appId example_app) new_compose = Inr ?c2"
    by (simp add: patch_compose_def patch_services_def patch_service_def truthy_def
          new_compose_def example_app_def web_service_def db_service_def)
  have 6: "\<not> fails updating_env (WriteCompose ?c2)"
    by (simp add: updating_env_def)
  have 7: "\<not> fails updating_env (Script ''post-patch-update'' (appId example_app))"
    by (simp add: updating_env_def)
  have 8: "old_images [(''web'', web_service), (''db'', db_service), (''builder'', builder_service)]
             = [''nginx:1.0'', ''postgres:13'']"
    by (simp add: old_images_def truthy_def web_service_def db_service_def builder_service_def)
  have 9: "fails updating_env (DockerRmi [''nginx:1.0'', ''postgres:13''])"
    by (simp add: updating_env_def)
  show ?thesis
    using update_removes_old_images [OF 1 2 3 4 5 6 7] 9
    by (simp add: 8 example_app_def example_world_def)
qed

subsection \<open>The container name patcher\<close>

lemma patch_example: "patch_compose ''bitcoin'' example_compose = Inr patched_example"
  by (simp add: patch_compose_def patch_services_def patch_service_def truthy_def
        patched_example_def example_defs)

lemma truthy_patched: "truthy (container_name (patch_service i n s))"
  by (simp add: patch_service_def truthy_def)

lemma patch_service_idem: "patch_service i n (patch_service i n s) = patch_service i n s"
  using truthy_patched [of i n s] by (simp add: patch_service_def)

lemma patch_services_idem: "patch_services i (patch_services i svcs) = patch_services i svcs"
  by (induction svcs) (auto simp add: patch_services_def patch_service_idem)

lemma patch_compose_idem:
  "patch_compose i c = Inr c' \<Longrightarrow> patch_compose i c' = Inr c'"
  by (auto simp add: patch_compose_def patch_services_idem split: option.splits)

lemma patchComposeServices_run:
  assumes "compose_file w = Some c" and "patch_compose (appId a) c = Inr c'"
    and "\<not> fails E (WriteCompose c')"
  shows "patchComposeServices E (a, w) =
     (Inr (), a, w\<lparr>compose_file := Some c', trace := trace w @ [ReadCompose, WriteCompose c']\<rparr>)"
  using assms by (simp add: patchComposeServices_def action_defs)

lemma patchComposeServices_success:
  assumes "patchComposeServices E (a, w) = (Inr u, a', w')"
  shows "\<exists>c c'. compose_file w = Some c \<and> patch_compose (appId a) c = Inr c'
           \<and> \<not> fails E (WriteCompose c') \<and> a' = a \<and> compose_file w' = Some c'"
  using assms
  by (auto simp add: patchComposeServices_def action_defs split: option.splits sum.splits if_splits)

lemma patchComposeServices_example:
  "patchComposeServices example_env (example_app, example_world) = (Inr (), example_app, patched_world)"
proof -
  have 1: "compose_file example_world = Some example_compose"
    by (simp add: example_world_def)
  have 2: "patch_compose (appId example_app) example_compose = Inr patched_example"
    by (simp add: patch_example example_app_def)
  have 3: "\<not> fails example_env (WriteCompose patched_example)"
    by (simp add: example_env_def)
  from patchComposeServices_run [OF 1 2 3] show ?thesis
    by (simp add: patched_world_def example_world_def)
qed

text \<open>
  C4. Patching is idempotent. On descriptors: patching the result of a patch gives that
  result again (and a descriptor that cannot be patched fails the same way). On the
  compose file: after a run of \<open>patchComposeServices\<close> that succeeded, a second run
  succeeds and leaves the file as the first run wrote it.
\<close>

theorem patch_idempotent:
  "(case patch_compose i c of Inl e \<Rightarrow> Inl e | Inr c' \<Rightarrow> patch_compose i c') = patch_compose i c
   \<and> (patchComposeServices E (a, w) = (Inr u, a', w') \<longrightarrow>
        fst (patchComposeServices E (a', w')) = Inr ()
        \<and> compose_file (snd (snd (patchComposeServices E (a', w')))) = compose_file w')"
proof -
  have pure: "(case patch_compose i c of Inl e \<Rightarrow> Inl e | Inr c' \<Rightarrow> patch_compose i c')
                = patch_compose i c"
    by (cases "patch_compose i c") (simp_all add: patch_compose_idem)
  have on_file: "fst (patchComposeServices E (a', w')) = Inr ()
        \<and> compose_file (snd (snd (patchComposeServices E (a', w')))) = compose_file w'"
    if run: "patchComposeServices E (a, w) = (Inr u, a', w')"
  proof -
    from patchComposeServices_success [OF run] obtain c c' where
      c: "patch_compose (appId a) c = Inr c'" and ok: "\<not> fails E (WriteCompose c')"
      and a': "a' = a" and w': "compose_file w' = Some c'"
      by blast
    from c have "patch_compose (appId a') c' = Inr c'"
      by (simp add: a' patch_compose_idem)
    from patchComposeServices_run [OF w' this ok] w' show ?thesis
      by simp
  qed
  from pure on_file show ?thesis by blast
qed

theorem patch_idempotent_witness:
  "patch_compose ''bitcoin'' example_compose = Inr patched_example
   \<and> patch_compose ''bitcoin'' patched_example = Inr patched_example
   \<and> patched_example \<noteq> example_compose
   \<and> patchComposeServices example_env (example_app, example_world) = (Inr (), example_app, patched_world)
   \<and> fst (patchComposeServices example_env (example_app, patched_world)) = Inr ()
   \<and> compose_file (snd (snd (patchComposeServices example_env (example_app, patched_world))))
       = Some patched_example"
proof -
  note idem = patch_idempotent [of "''bitcoin''" example_compose
        example_env example_app example_world "()" example_app patched_world]
  from conjunct1 [OF idem] conjunct2 [OF idem] patchComposeServices_example
  show ?thesis
    by (simp add: patch_example) (simp add: patched_example_def patched_world_def example_defs)
qed

text \<open>
  C5, as amended. Patching keeps the services, their order and names, and every field
  but \<open>container_name\<close>. A container name that is present and not the empty string is
  kept; a service with no container name, or with the empty string for one, gets the
  name \<open>appId_serviceName_1\<close>. After patching every service has a name that is not
  empty.
\<close>

theorem patch_assigns_missing_names:
  assumes "patch_compose i c = Inr c'"
  shows "\<exists>svcs svcs'.
     services c = Some svcs \<and> services c' = Some svcs'
     \<and> other_sections c' = other_sections c
     \<and> length svcs' = length svcs
     \<and> (\<forall>k < length svcs.
          fst (svcs' ! k) = fst (svcs ! k)
          \<and> service_image (snd (svcs' ! k)) = service_image (snd (svcs ! k))
          \<and> other_fields (snd (svcs' ! k)) = other_fields (snd (svcs ! k))
          \<and> container_name (snd (svcs' ! k)) =
              (if truthy (container_name (snd (svcs ! k)))
               then container_name (snd (svcs ! k))
               else Some (i @ ''_'' @ fst (svcs ! k) @ ''_1''))
          \<and> truthy (container_name (snd (svcs' ! k))))"
  using assms
  by (auto simp add: patch_compose_def patch_services_def patch_service_def truthy_def
        split: option.splits prod.splits)

theorem patch_assigns_missing_names_witness:
  "patch_compose ''bitcoin'' example_compose = Inr patched_example
   \<and> map (\<lambda>(n, s). (n, container_name s)) (the (services example_compose)) =
        [(''web'', None), (''db'', Some ''db''), (''builder'', Some [])]
   \<and> map (\<lambda>(n, s). (n, container_name s)) (the (services patched_example)) =
        [(''web'', Some ''bitcoin_web_1''), (''db'', Some ''db''),
         (''builder'', Some ''bitcoin_builder_1'')]"
  using patch_assigns_missing_names [OF patch_example]
  by (simp add: patch_example) (simp add: patched_example_def example_defs)

text \<open>
  The claim as first stated fails for an explicit name that is the empty string: the
  test \<open>!container_name\<close> takes it for a missing name and the patcher overwrites it.
\<close>

theorem patch_overwrites_empty_name:
  "container_name builder_service = Some []
   \<and> patch_compose ''bitcoin'' \<lparr>services = Some [(''builder'', builder_service)], other_sections = []\<rparr>
       = Inr \<lparr>services = Some [(''builder'',
                 builder_service\<lparr>container_name := Some ''bitcoin_builder_1''\<rparr>)],
              other_sections = []\<rparr>"
  by (simp add: patch_compose_def patch_services_def patch_service_def truthy_def builder_service_def)

subsection \<open>Uninstall\<close>

text \<open>
  C6. When \<open>uninstall\<close> returns, it returns \<open>true\<close>, and the list stored under \<open>apps\<close> is
  the list stored before with every occurrence of the identifier of the application
  filtered out, the other identifiers in their order. The list is read and written back
  between the acquisition of the write lock and its release, after the script \<open>stop\<close>
  and the removal of the data directory, and the release is the last step before the
  return.
\<close>

theorem uninstall_removes_id_under_lock:
  assumes "uninstall E (a, w) = (Inr b, a', w')"
  shows "b
    \<and> store w' ''apps'' = filter (\<lambda>i. i \<noteq> appId a) (store w ''apps'')
    \<and> trace w' = trace w @
         [SetState Uninstalling, Script ''stop'' (appId a), RemoveDir (dataDirectory a),
          LockAcquire, StoreGet ''apps'',
          StoreSet ''apps'' (filter (\<lambda>i. i \<noteq> appId a) (store w ''apps'')),
          LockRelease]"
  using assms
  by (auto simp add: uninstall_def getWriteLock_def fse_remove_def store_get_def store_set_def
        action_defs split: if_splits option.splits sum.splits)

lemma uninstall_example:
  "uninstall example_env (example_app, example_world) =
     (Inr True, example_app\<lparr>state := Uninstalling\<rparr>,
      example_world\<lparr>compose_file := None, data_dir := False,
        store := (store example_world)(''apps'' := [''lightning'', ''mempool'']),
        trace := [SetState Uninstalling, Script ''stop'' ''bitcoin'', RemoveDir ''/data/app-data/bitcoin'',
          LockAcquire, StoreGet ''apps'', StoreSet ''apps'' [''lightning'', ''mempool''], LockRelease]\<rparr>)"
  by (simp add: uninstall_def getWriteLock_def fse_remove_def store_get_def store_set_def
        action_defs example_defs)

theorem uninstall_removes_id_under_lock_witness:
  "fst (uninstall example_env (example_app, example_world)) = Inr True
   \<and> store example_world ''apps'' = [''bitcoin'', ''lightning'', ''bitcoin'', ''mempool'']
   \<and> store (snd (snd (uninstall example_env (example_app, example_world)))) ''apps''
        = [''lightning'', ''mempool'']"
  using uninstall_removes_id_under_lock [OF uninstall_example]
  by (simp add: uninstall_example) (simp add: example_defs)

text \<open>The other operations on the example.\<close>

lemma lifecycle_examples:
  "install example_env (example_app, example_world) =
     (Inr True, example_app\<lparr>state := Ready\<rparr>,
      example_world\<lparr>compose_file := Some patched_example,
        trace := [SetState Installing, ReadCompose, WriteCompose patched_example,
                  Script ''install'' ''bitcoin'', SetState Ready]\<rparr>)"
  "start example_env (example_app, example_world) =
     (Inr True, example_app\<lparr>state := Ready\<rparr>,
      example_world\<lparr>trace := [Log ''Starting app bitcoin'', SetState Starting,
                                Script ''start'' ''bitcoin'', SetState Ready]\<rparr>)"
  "stop example_env (example_app, example_world) =
     (Inr True, example_app\<lparr>state := Stopped\<rparr>,
      example_world\<lparr>trace := [SetState Stopping, Script ''stop'' ''bitcoin'', SetState Stopped]\<rparr>)"
  "fst (update example_env (example_app, example_world)) = Inr True"
  "fst (restart example_env (example_app, example_world)) = Inr True"
  by (simp_all add: install_def start_def stop_def update_def restart_def patchComposeServices_def
        patch_compose_def patch_services_def patch_service_def truthy_def
        action_defs patched_example_def example_defs)

text \<open>
  C10. When \<open>uninstall\<close> returns with success the state is \<open>uninstalling\<close>: the write of
  that state is the first step and no other write of the state follows it. Each of the
  other five operations ends a successful run with a terminal state: \<open>ready\<close> for
  \<open>install\<close>, \<open>update\<close>, \<open>start\<close> and \<open>restart\<close>, \<open>stopped\<close> for \<open>stop\<close>.
\<close>

theorem uninstall_sets_no_terminal_state:
  "(uninstall E (a, w) = (Inr b, a', w') \<longrightarrow>
      state a' = Uninstalling
      \<and> (\<exists>evs. trace w' = trace w @ SetState Uninstalling # evs \<and> (\<forall>st. SetState st \<notin> set evs)))
   \<and> (install E (a, w) = (Inr b, a', w') \<longrightarrow> state a' = Ready)
   \<and> (update E (a, w) = (Inr b, a', w') \<longrightarrow> state a' = Ready)
   \<and> (start E (a, w) = (Inr b, a', w') \<longrightarrow> state a' = Ready)
   \<and> (stop E (a, w) = (Inr b, a', w') \<longrightarrow> state a' = Stopped)
   \<and> (restart E (a, w) = (Inr b, a', w') \<longrightarrow> state a' = Ready)"
proof -
  have un: "uninstall E (a, w) = (Inr b, a', w') \<Longrightarrow>
      state a' = Uninstalling
      \<and> (\<exists>evs. trace w' = trace w @ SetState Uninstalling # evs \<and> (\<forall>st. SetState st \<notin> set evs))"
    by (auto simp add: uninstall_def getWriteLock_def fse_remove_def store_get_def store_set_def
        action_defs split: if_splits option.splits sum.splits)
  have ins: "install E (a, w) = (Inr b, a', w') \<Longrightarrow> state a' = Ready"
    by (auto simp add: install_def patchComposeServices_def action_defs
        split: if_splits option.splits sum.splits)
  have upd: "update E (a, w) = (Inr b, a', w') \<Longrightarrow> state a' = Ready"
    by (auto simp add: update_def patchComposeServices_def action_defs
        split: if_splits option.splits sum.splits)
  have sta: "start E (a, w) = (Inr b, a', w') \<Longrightarrow> state a' = Ready"
    by (auto simp add: start_def action_defs split: if_splits)
  have sto: "stop E (a, w) = (Inr b, a', w') \<Longrightarrow> state a' = Stopped"
    by (auto simp add: stop_def action_defs split: if_splits)
  have res: "restart E (a, w) = (Inr b, a', w') \<Longrightarrow> state a' = Ready"
    by (auto simp add: restart_def action_defs split: if_splits)
  from un ins upd sta sto res show ?thesis by blast
qed

theorem uninstall_sets_no_terminal_state_witness:
  "fst (uninstall example_env (example_app, example_world)) = Inr True
   \<and> state (fst (snd (uninstall example_env (example_app, example_world)))) = Uninstalling
   \<and> fst (install example_env (example_app, example_world)) = Inr True
   \<and> state (fst (snd (install example_env (example_app, example_world)))) = Ready
   \<and> fst (update example_env (example_app, example_world)) = Inr True
   \<and> state (fst (snd (update example_env (example_app, example_world)))) = Ready
   \<and> fst (start example_env (example_app, example_world)) = Inr True
   \<and> state (fst (snd (start example_env (example_app, example_world)))) = Ready
   \<and> fst (stop example_env (example_app, example_world)) = Inr True
   \<and> state (fst (snd (stop example_env (example_app, example_world)))) = Stopped
   \<and> fst (restart example_env (example_app, example_world)) = Inr True
   \<and> state (fst (snd (restart example_env (example_app, example_world)))) = Ready"
proof -
  have run: "r = (Inr True, fst (snd r), snd (snd r))" if "fst r = Inr True"
    for r :: "(error + bool) \<times> App \<times> world"
    using that by (cases r) auto
  note ends = uninstall_sets_no_terminal_state [of example_env example_app example_world True]
  have un: "fst (uninstall example_env (example_app, example_world)) = Inr True"
    by (simp add: uninstall_example)
  have ins: "fst (install example_env (example_app, example_world)) = Inr True"
    and sta: "fst (start example_env (example_app, example_world)) = Inr True"
    and sto: "fst (stop example_env (example_app, example_world)) = Inr True"
    by (simp_all add: lifecycle_examples)
  note upd = lifecycle_examples(4) and res = lifecycle_examples(5)
  from ends [of "fst (snd (uninstall example_env (example_app, example_world)))"
                "snd (snd (uninstall example_env (example_app, example_world)))"] run [OF un]
  have 1: "state (fst (snd (uninstall example_env (example_app, example_world)))) = Uninstalling"
    by blast
  from ends [of "fst (snd (install example_env (example_app, example_world)))"
                "snd (snd (install example_env (example_app, example_world)))"] run [OF ins]
  have 2: "state (fst (snd (install example_env (example_app, example_world)))) = Ready"
    by blast
  from ends [of "fst (snd (update example_env (example_app, example_world)))"
                "snd (snd (update example_env (example_app, example_world)))"] run [OF upd]
  have 3: "state (fst (snd (update example_env (example_app, example_world)))) = Ready"
    by blast
  from ends [of "fst (snd (start example_env (example_app, example_world)))"
                "snd (snd (start example_env (example_app, example_world)))"] run [OF sta]
  have 4: "state (fst (snd (start example_env (example_app, example_world)))) = Ready"
    by blast
  from ends [of "fst (snd (stop example_env (example_app, example_world)))"
                "snd (snd (stop example_env (example_app, example_world)))"] run [OF sto]
  have 5: "state (fst (snd (stop example_env (example_app, example_world)))) = Stopped"
    by blast
  from ends [of "fst (snd (restart example_env (example_app, example_world)))"
                "snd (snd (restart example_env (example_app, example_world)))"] run [OF res]
  have 6: "state (fst (snd (restart example_env (example_app, example_world)))) = Ready"
    by blast
  from un ins upd sta sto res 1 2 3 4 5 6 show ?thesis
    by simp
qed

subsection \<open>Construction\<close>

text \<open>
  C8, as amended. The constructor succeeds exactly for the identifiers that are not
  empty and made of ASCII letters, digits, hyphens and underscores only. For any other
  identifier (one with a character outside that set, such as a space or a slash, and
  the empty identifier) it throws and the world is as it was: nothing is in the history,
  not even the creation of the child logger.
\<close>

theorem constructor_accepts_nonempty_ids:
  "App_constructor E i w =
     (if i \<noteq> [] \<and> (\<forall>ch \<in> set i. id_char ch)
      then (Inr \<lparr>appId = i, dataDirectory = umbreld_dataDirectory E @ ''/app-data/'' @ i,
                 state = Unknown, stateProgress = 0\<rparr>,
            w\<lparr>trace := trace w @ [CreateChildLogger ''app'']\<rparr>)
      else (Inl (InvalidAppId i), w))"
  by (simp add: App_constructor_def appId_test_def list_all_iff)

theorem constructor_accepts_nonempty_ids_witness:
  "App_constructor example_env ''my app'' example_world = (Inl (InvalidAppId ''my app''), example_world)
   \<and> App_constructor example_env ''../etc'' example_world = (Inl (InvalidAppId ''../etc''), example_world)
   \<and> fst (App_constructor example_env ''bitcoin-node_2'' example_world) =
        Inr \<lparr>appId = ''bitcoin-node_2'', dataDirectory = ''/data/app-data/bitcoin-node_2'',
             state = Unknown, stateProgress = 0\<rparr>"
  using constructor_accepts_nonempty_ids [of example_env "''my app''" example_world]
    constructor_accepts_nonempty_ids [of example_env "''../etc''" example_world]
    constructor_accepts_nonempty_ids [of example_env "''bitcoin-node_2''" example_world]
  by (simp add: id_char_def example_env_def)

text \<open>
  The claim as first stated fails for the empty identifier: every character of it is in
  the set, and the constructor throws, since the pattern asks for one character at least.
\<close>

theorem constructor_rejects_empty_id:
  "list_all id_char [] \<and> App_constructor example_env [] example_world = (Inl (InvalidAppId []), example_world)"
  by (simp add: App_constructor_def appId_test_def)

subsection \<open>Resource usage\<close>

text \<open>
  A service with no container name stops \<open>getResourceUsage\<close> with a \<open>TypeError\<close> before
  \<open>docker stats\<close> is started; with every name present the names are the arguments of
  the command.
\<close>

lemma getResourceUsage_missing_name:
  assumes "compose_file w = Some c" and "services c = Some svcs"
    and "(n, s) \<in> set svcs" and "container_name s = None"
  shows "getResourceUsage E (a, w) = (Inl TypeError, a, w\<lparr>trace := trace w @ [ReadCompose]\<rparr>)"
proof -
  from assms(3,4) have "None \<in> set (map (\<lambda>(serviceName, s). container_name s) svcs)"
    by (force simp add: image_iff)
  with assms(1,2) show ?thesis
    by (simp add: getResourceUsage_def docker_stats_def template_args_def action_defs)
qed

lemma getResourceUsage_unpatched_example:
  "getResourceUsage E (example_app, example_world) =
     (Inl TypeError, example_app, example_world\<lparr>trace := [ReadCompose]\<rparr>)"
  using getResourceUsage_missing_name [of example_world example_compose _ "''web''" web_service E example_app]
  by (simp add: example_defs)

text \<open>The sum of the loop, when no line of the statistics is \<open>null\<close>.\<close>

lemma sum_percentages_foldl:
  "None \<notin> set cs \<Longrightarrow>
   sum_percentages F acc cs = Inr (foldl js_add acc (map (\<lambda>c. parseFloat (F (the c))) cs))"
proof (induction cs arbitrary: acc)
  case Nil
  show ?case by simp
next
  case (Cons v cs)
  then obtain c where "v = Some c" by (cases v) auto
  with Cons show ?case by simp
qed

text \<open>\<open>NaN\<close> absorbs the arithmetic of the two aggregations.\<close>

lemma js_add_NaN [simp]: "js_add NaN y = NaN" "js_add x NaN = NaN"
  by (simp_all add: js_add_def split: number.splits)

lemma js_div_NaN [simp]: "js_div NaN y = NaN"
  by (simp add: js_div_def)

lemma js_mul_NaN [simp]: "js_mul x NaN = NaN"
  by (simp add: js_mul_def split: number.splits)

lemma foldl_js_add_NaN [simp]: "foldl js_add NaN xs = NaN"
  by (induction xs) simp_all


lemma getMemoryUsage_run:
  assumes "getResourceUsage E (a, w) = (Inr containers, a', w')"
    and "sum_percentages MemPerc (Finite 0) containers = Inr t"
    and "\<not> fails E SystemInformationMem"
  shows "getMemoryUsage E (a, w) =
     (Inr (js_mul (total_memory E) (js_div t (Finite 100))),
      a', w'\<lparr>trace := trace w' @ [SystemInformationMem]\<rparr>)"
  using assms
  by (simp add: getMemoryUsage_def systemInformation_mem_def await_def ret_def throw_def)


text \<open>Values of the number model on the examples below.\<close>

lemma parseFloat_examples:
  "parseFloat (code_units ''10.0'') = Finite 10"
  "parseFloat (code_units ''5.5'') = Finite (11 / 2)"
  "parseFloat (code_units ''10.0%'') = Finite 10"
  "parseFloat (code_units ''50.0%'') = Finite 50"
  "parseFloat (code_units ''0.00%'') = Finite 0"
  "parseFloat (code_units ''--'') = NaN"
  by code_simp+

text \<open>White space beyond ASCII is dropped as well: a no-break space and a narrow one.\<close>

lemma parseFloat_unicode_space:
  "parseFloat (0xA0 # 0x202F # code_units ''12'') = Finite 12"
  by code_simp

lemma js_add_examples:
  "js_add (Finite 0) (Finite 10) = Finite 10"
  "js_add (Finite 10) (Finite (11 / 2)) = Finite (31 / 2)"
  "js_add (Finite 0) (Finite 50) = Finite 50"
  "js_add (Finite 10) (Finite 0) = Finite 10"
  "js_add (Finite 50) (Finite 0) = Finite 50"
  by code_simp+

lemma js_div_examples:
  "js_div (Finite (31 / 2)) (Finite 100) = binary64 (31 / 200)"
  "js_div (Finite 10) (Finite 100) = binary64 (1 / 10)"
  by (simp_all add: js_div_def)

lemma js_mul_examples:
  "js_mul (Finite 16000000000) (binary64 (31 / 200)) = Finite 2480000000"
  "js_mul (Finite 16000000000) (binary64 (1 / 10)) = Finite 1600000000"
  by code_simp+

lemma stats_example:
  "getResourceUsage (stats_env [(''10.0'', ''50.0''), (''5.5'', ''75.0'')]) (example_app, running_world) =
     (Inr [Some (sample (''10.0'', ''50.0'')), Some (sample (''5.5'', ''75.0''))],
      example_app, stats_world)"
  by (simp add: stats_defs action_defs example_defs)



text \<open>
  C9. When the statistics have been collected (no line of them \<open>null\<close>) and the total
  memory of the host is read, \<open>getMemoryUsage\<close> returns the total memory times the
  hundredth of the sum of the parsed memory percentages, in the arithmetic of doubles:
  \<open>total * (sum / 100)\<close>. For two containers with the percentages \<open>10.0\<close> and \<open>5.5\<close> and
  a total of \<open>16000000000\<close> bytes this is the value of \<open>16000000000 * 0.155\<close>, which is
  \<open>2480000000\<close>.
\<close>

theorem memory_usage_formula:
  assumes "getResourceUsage E (a, w) = (Inr containers, a', w')"
    and "None \<notin> set containers"
    and "\<not> fails E SystemInformationMem"
  shows "getMemoryUsage E (a, w) =
     (Inr (js_mul (total_memory E)
            (js_div (foldl js_add (Finite 0) (map (\<lambda>c. parseFloat (MemPerc (the c))) containers))
                    (Finite 100))),
      a', w'\<lparr>trace := trace w' @ [SystemInformationMem]\<rparr>)"
  using assms(2) getMemoryUsage_run [OF assms(1) _ assms(3)]
  by (simp add: sum_percentages_foldl)

theorem memory_usage_formula_witness:
  "map (\<lambda>(n, s). container_name s) (the (services running_compose)) = [Some ''bitcoin_web_1'', Some ''db'']
   \<and> fst (getMemoryUsage (stats_env [(''10.0'', ''50.0''), (''5.5'', ''75.0'')])
          (example_app, running_world))
       = Inr (js_mul (Finite 16000000000) (binary64 (155 / 1000)))
   \<and> js_mul (Finite 16000000000) (binary64 (155 / 1000)) = Finite 2480000000
   \<and> trace (snd (snd (getMemoryUsage (stats_env [(''10.0'', ''50.0''), (''5.5'', ''75.0'')])
          (example_app, running_world))))
       = [ReadCompose, DockerStats [''bitcoin_web_1'', ''db''], SystemInformationMem]"
proof -
  have ok: "\<not> fails (stats_env [(''10.0'', ''50.0''), (''5.5'', ''75.0'')]) SystemInformationMem"
    by (simp add: stats_env_def example_env_def)
  have mem: "total_memory (stats_env [(''10.0'', ''50.0''), (''5.5'', ''75.0'')]) = Finite 16000000000"
    by (simp add: stats_env_def example_env_def)
  have names: "map (\<lambda>(n, s). container_name s) (the (services running_compose))
                 = [Some ''bitcoin_web_1'', Some ''db'']"
    by (simp add: running_compose_def web_service_def db_service_def)
  from memory_usage_formula [OF stats_example _ ok] names show ?thesis
    by (simp add: mem sample_def parseFloat_examples js_add_examples js_div_examples
          js_mul_examples stats_world_def)
qed




end
